theory Spec2Isabelle
  imports Complex_Main "HOL-Library.Multiset" "HOL-Library.Product_Lexorder"
begin

section \<open>Python list slices\<close>

text \<open>
  Python's \<^verbatim>\<open>xs[i:]\<close> for an integer \<open>i\<close>: a negative start counts from the end and is
  clamped at the beginning of the list, a start beyond the end gives the empty list.
  The sources use \<^verbatim>\<open>xs[-100:]\<close>, \<^verbatim>\<open>xs[-limit:]\<close> and \<^verbatim>\<open>xs[-4:]\<close>; note that
  \<^verbatim>\<open>xs[-0:]\<close> is \<^verbatim>\<open>xs[0:]\<close>, the whole list.
\<close>

definition slice_from :: "int \<Rightarrow> 'a list \<Rightarrow> 'a list" where
  "slice_from i xs =
     (if i < 0 then drop (nat (int (length xs) + i)) xs else drop (nat i) xs)"

text \<open>The last \<open>n\<close> elements of a list, oldest first.\<close>

definition keep_last :: "nat \<Rightarrow> 'a list \<Rightarrow> 'a list" where
  "keep_last n xs = drop (length xs - n) xs"

section \<open>Conversation memory (memory/manager.py)\<close>

text \<open>
  The message classes of the chat library: the role is the class of the object.
\<close>

datatype base_message = HumanMessage (content: string) | AIMessage (content: string)

text \<open>
  \<^verbatim>\<open>ConversationBufferWindowMemory(k=10, return_messages=True)\<close>. The class belongs to
  the chat library, not to the repository; the manager uses two of its members:
  \<^item> \<^verbatim>\<open>save_context({"input": i}, {"output": o})\<close> appends \<^verbatim>\<open>HumanMessage(i)\<close> and then
    \<^verbatim>\<open>AIMessage(o)\<close> to \<^verbatim>\<open>chat_memory.messages\<close>;
  \<^item> \<^verbatim>\<open>chat_memory.messages\<close> is the whole list of saved messages.
  The window of \<open>k\<close> exchanges is applied by the library's own view of the memory
  (\<^verbatim>\<open>buffer\<close>, the last \<open>2 * k\<close> messages), which is modelled beside them.
\<close>

record window_memory =
  window_k :: nat
  chat_memory :: "base_message list"

definition save_context :: "string \<Rightarrow> string \<Rightarrow> window_memory \<Rightarrow> window_memory" where
  "save_context inp outp wm =
     wm\<lparr>chat_memory := chat_memory wm @ [HumanMessage inp, AIMessage outp]\<rparr>"

definition buffer :: "window_memory \<Rightarrow> base_message list" where
  "buffer wm =
     (if 0 < window_k wm then slice_from (- (int (window_k wm) * 2)) (chat_memory wm) else [])"

text \<open>One entry of the list \<^verbatim>\<open>user_memory["conversations"]\<close>.\<close>

record conversation =
  c_id :: string
  c_timestamp :: string
  c_message :: string
  c_is_user :: bool

text \<open>
  The dictionary that \<^verbatim>\<open>get_user_memory\<close> creates for a user. The summary memory is
  represented by its message list, which no function of the manager writes.
\<close>

record user_memory =
  summary_memory :: "base_message list"
  buffer_memory :: window_memory
  conversations :: "conversation list"
  user_context :: "string \<rightharpoonup> string"

text \<open>\<^verbatim>\<open>self.user_memories\<close>, a dictionary from user id to that user's memory.\<close>

type_synonym user_memories = "string \<rightharpoonup> user_memory"

definition new_user_memory :: user_memory where
  "new_user_memory =
     \<lparr>summary_memory = [],
      buffer_memory = \<lparr>window_k = 10, chat_memory = []\<rparr>,
      conversations = [],
      user_context = Map.empty\<rparr>"

definition get_user_memory :: "user_memories \<Rightarrow> string \<Rightarrow> user_memories \<times> user_memory" where
  "get_user_memory ums user_id =
     (case ums user_id of
        None \<Rightarrow> (ums(user_id \<mapsto> new_user_memory), new_user_memory)
      | Some um \<Rightarrow> (ums, um))"

text \<open>
  \<^verbatim>\<open>add_message\<close>; \<open>now\<close> is the reading of \<^verbatim>\<open>datetime.utcnow().isoformat()\<close>.
\<close>

definition add_message ::
  "user_memories \<Rightarrow> string \<Rightarrow> string \<Rightarrow> bool \<Rightarrow> string \<Rightarrow> string \<Rightarrow> user_memories" where
  "add_message ums user_id message is_user conversation_id now =
     (let (ums1, user_memory) = get_user_memory ums user_id;
          bm = save_context (if is_user then message else [])
                            (if \<not> is_user then message else [])
                            (buffer_memory user_memory);
          conversation = \<lparr>c_id = conversation_id, c_timestamp = now,
                           c_message = message, c_is_user = is_user\<rparr>;
          convs = conversations user_memory @ [conversation];
          convs' = (if length convs > 100 then slice_from (- 100) convs else convs)
      in ums1(user_id \<mapsto> user_memory\<lparr>buffer_memory := bm, conversations := convs'\<rparr>))"

definition get_conversation_history ::
  "user_memories \<Rightarrow> string \<Rightarrow> string \<Rightarrow> int \<Rightarrow> user_memories \<times> conversation list" where
  "get_conversation_history ums user_id conversation_id limit =
     (let (ums1, user_memory) = get_user_memory ums user_id
      in (ums1, slice_from (- limit)
                  (filter (\<lambda>conv. c_id conv = conversation_id) (conversations user_memory))))"

definition get_recent_context :: "user_memories \<Rightarrow> string \<Rightarrow> user_memories \<times> base_message list" where
  "get_recent_context ums user_id =
     (let (ums1, user_memory) = get_user_memory ums user_id
      in (ums1, chat_memory (buffer_memory user_memory)))"

definition clear_user_memory :: "user_memories \<Rightarrow> string \<Rightarrow> user_memories" where
  "clear_user_memory ums user_id = ums(user_id := None)"

text \<open>
  A recorded call of \<^verbatim>\<open>add_message\<close> with its arguments, and the replay of a sequence
  of such calls on a manager, in order.
\<close>

record turn =
  t_user :: string
  t_message :: string
  t_is_user :: bool
  t_conversation :: string
  t_now :: string

definition record_turn :: "user_memories \<Rightarrow> turn \<Rightarrow> user_memories" where
  "record_turn ums t =
     add_message ums (t_user t) (t_message t) (t_is_user t) (t_conversation t) (t_now t)"

definition record_all :: "user_memories \<Rightarrow> turn list \<Rightarrow> user_memories" where
  "record_all ums ts = foldl record_turn ums ts"

definition conversation_of :: "turn \<Rightarrow> conversation" where
  "conversation_of t =
     \<lparr>c_id = t_conversation t, c_timestamp = t_now t,
      c_message = t_message t, c_is_user = t_is_user t\<rparr>"

text \<open>The two messages that one call of \<^verbatim>\<open>add_message\<close> hands to \<^verbatim>\<open>save_context\<close>.\<close>

definition saved_pair :: "turn \<Rightarrow> base_message list" where
  "saved_pair t = [HumanMessage (if t_is_user t then t_message t else []),
                   AIMessage (if \<not> t_is_user t then t_message t else [])]"

text \<open>What a reader sees of a user's memory: the full log and the recent context.\<close>

definition full_log :: "user_memories \<Rightarrow> string \<Rightarrow> conversation list" where
  "full_log ums user_id = conversations (snd (get_user_memory ums user_id))"

definition recent_context :: "user_memories \<Rightarrow> string \<Rightarrow> base_message list" where
  "recent_context ums user_id = snd (get_recent_context ums user_id)"

section \<open>Database (database.py)\<close>

record db_note =
  n_id :: int
  n_title :: string
  n_content :: string
  n_created_at :: string
  n_updated_at :: string

text \<open>
  A row of \<^verbatim>\<open>note_embeddings\<close> as \<^verbatim>\<open>add_note\<close> constructs it: the note id and the
  vector. Its primary key and creation time are filled in by the database and read by
  no function of the repository. A vector is the list of its components; the column
  type fixes the length of a stored vector at 768.
\<close>

record note_embedding =
  ne_note_id :: int
  ne_embedding :: "real list"

text \<open>The two tables, each a list of rows in the order in which the store holds them.\<close>

record tables =
  t_notes :: "db_note list"
  t_note_embeddings :: "note_embedding list"

text \<open>
  A double-precision value, as the store computes it (\<^verbatim>\<open>float8\<close>) and as Python holds
  it (\<^verbatim>\<open>float\<close>): a number, carried with its exact value, or not-a-number. Cosine
  distances lie between 0 and 2, so infinities do not occur, and \<open>1 - d\<close> is never the
  negative zero, which the type does not tell from zero.
\<close>

datatype float8 = Finite real | NaN

text \<open>
  The order in which the store sorts \<^verbatim>\<open>float8\<close> values: by value, with not-a-number
  after every number and equal to itself.
\<close>

definition float8_key :: "float8 \<Rightarrow> bool \<times> real" where
  "float8_key d = (case d of Finite x \<Rightarrow> (False, x) | NaN \<Rightarrow> (True, 0))"

text \<open>Python's \<^verbatim>\<open>a > b\<close> on floats: false whenever not-a-number takes part.\<close>

definition py_gt :: "float8 \<Rightarrow> float8 \<Rightarrow> bool" where
  "py_gt a b = (case a of Finite x \<Rightarrow> (case b of Finite y \<Rightarrow> y < x | NaN \<Rightarrow> False)
                | NaN \<Rightarrow> False)"

text \<open>
  The arithmetic of the database engine is not part of the repository and is taken as
  a parameter: the operator \<^verbatim>\<open><=>\<close> of the vector extension (cosine distance of two
  vectors, a \<^verbatim>\<open>float8\<close>), and the rounding of an exact result to the nearest
  \<^verbatim>\<open>float8\<close>, by which \<^verbatim>\<open>float8\<close> subtraction is defined.
\<close>

record vector_engine =
  vector_distance :: "real list \<Rightarrow> real list \<Rightarrow> float8"
  float8_round :: "real \<Rightarrow> real"

definition float8_minus :: "vector_engine \<Rightarrow> float8 \<Rightarrow> float8 \<Rightarrow> float8" where
  "float8_minus eng a b =
     (case a of
        Finite x \<Rightarrow> (case b of Finite y \<Rightarrow> Finite (float8_round eng (x - y)) | NaN \<Rightarrow> NaN)
      | NaN \<Rightarrow> NaN)"

text \<open>
  A database session: the engine behind it, the committed tables, and the tables as the
  open transaction sees them. \<^verbatim>\<open>db.commit()\<close> publishes the transaction's view;
  \<^verbatim>\<open>db.close()\<close> (the \<^verbatim>\<open>finally\<close> of \<^verbatim>\<open>get_db\<close>) discards what was not committed.
\<close>

record session =
  engine :: vector_engine
  committed :: tables
  pending :: tables

definition db_add :: "note_embedding \<Rightarrow> session \<Rightarrow> session" where
  "db_add row s =
     s\<lparr>pending := (pending s)\<lparr>t_note_embeddings := t_note_embeddings (pending s) @ [row]\<rparr>\<rparr>"

definition db_delete_embeddings :: "int \<Rightarrow> session \<Rightarrow> session" where
  "db_delete_embeddings note_id s =
     s\<lparr>pending := (pending s)\<lparr>t_note_embeddings :=
          filter (\<lambda>ne. ne_note_id ne \<noteq> note_id) (t_note_embeddings (pending s))\<rparr>\<rparr>"

definition db_commit :: "session \<Rightarrow> session" where
  "db_commit s = s\<lparr>committed := pending s\<rparr>"

definition db_close :: "session \<Rightarrow> session" where
  "db_close s = s\<lparr>pending := committed s\<rparr>"

section \<open>Model service (services/llm\_service.py)\<close>

record chat_message =
  m_role :: string
  m_content :: string

record chat_options =
  o_temperature :: real
  o_top_p :: real
  o_max_tokens :: int

text \<open>
  The two external capabilities. Each either raises (\<open>Inl\<close> with the exception's text)
  or returns a value: \<^verbatim>\<open>embeddings.embed_query\<close> a vector, \<^verbatim>\<open>ollama.chat\<close> the content
  of the reply.
\<close>

record llm_service =
  embed_query :: "string \<Rightarrow> string + real list"
  ollama_chat :: "chat_message list \<Rightarrow> chat_options \<Rightarrow> string + string"

text \<open>Every call of an external capability is written to a trace.\<close>

datatype call = Embed_call string | Chat_call "chat_message list" chat_options

record app_state =
  db :: session
  memories :: user_memories
  calls :: "call list"

definition get_embedding ::
  "llm_service \<Rightarrow> string \<Rightarrow> app_state \<Rightarrow> real list option \<times> app_state" where
  "get_embedding svc text st =
     (case embed_query svc text of
        Inl e \<Rightarrow> (None, st\<lparr>calls := calls st @ [Embed_call text]\<rparr>)
      | Inr embedding \<Rightarrow> (Some embedding, st\<lparr>calls := calls st @ [Embed_call text]\<rparr>))"

text \<open>
  \<^verbatim>\<open>generate_response\<close> catches every exception of its body and returns \<^verbatim>\<open>None\<close>; the
  result type keeps the exceptional case (\<open>Inl\<close>) that the handler of its caller is
  written for.
\<close>

definition generate_response ::
  "llm_service \<Rightarrow> chat_message list \<Rightarrow> int \<Rightarrow> real \<Rightarrow> app_state
     \<Rightarrow> (string + string option) \<times> app_state" where
  "generate_response svc messages max_tokens temperature st =
     (let ollama_messages = map (\<lambda>msg. \<lparr>m_role = m_role msg, m_content = m_content msg\<rparr>) messages;
          options = \<lparr>o_temperature = temperature, o_top_p = 0.9, o_max_tokens = max_tokens\<rparr>;
          st1 = st\<lparr>calls := calls st @ [Chat_call ollama_messages options]\<rparr>
      in case ollama_chat svc ollama_messages options of
           Inl e \<Rightarrow> (Inr None, st1)
         | Inr response \<Rightarrow> (Inr (Some response), st1))"

section \<open>Text formatting\<close>

definition digit_char :: "nat \<Rightarrow> char" where
  "digit_char d = ''0123456789'' ! (d mod 10)"

fun str_nat :: "nat \<Rightarrow> string" where
  "str_nat n = (if n < 10 then [digit_char n] else str_nat (n div 10) @ [digit_char (n mod 10)])"

text \<open>\<^verbatim>\<open>str\<close> of a Python integer.\<close>

definition str_int :: "int \<Rightarrow> string" where
  "str_int i = (if i < 0 then ''-'' @ str_nat (nat (- i)) else str_nat (nat i))"

definition round_half_even :: "real \<Rightarrow> int" where
  "round_half_even x =
     (let f = \<lfloor>x\<rfloor>; d = x - of_int f
      in if d < 1 / 2 then f else if 1 / 2 < d then f + 1 else if even f then f else f + 1)"

text \<open>The magnitude of a number in hundredths, as the format \<^verbatim>\<open>:.2f\<close> rounds it.\<close>

definition hundredths :: "real \<Rightarrow> nat" where
  "hundredths x = nat (round_half_even (\<bar>x\<bar> * 100))"

text \<open>
  The format specification \<^verbatim>\<open>:.2f\<close> on a Python float. A number is printed from its
  exact value: sign, integer part, point, two decimals, rounded to nearest with exact
  ties to even. Not-a-number is printed as \<^verbatim>\<open>nan\<close>.
\<close>

definition fmt_2f :: "float8 \<Rightarrow> string" where
  "fmt_2f v =
     (case v of
        NaN \<Rightarrow> ''nan''
      | Finite x \<Rightarrow>
          (if x < 0 then ''-'' else []) @ str_nat (hundredths x div 100) @ ''.'' @
          [digit_char (hundredths x mod 100 div 10), digit_char (hundredths x mod 10)])"

text \<open>
  Reading decimal text back: the value of a digit, of a digit string, and of a digit
  string with an optional minus sign.
\<close>

definition is_digit :: "char \<Rightarrow> bool" where
  "is_digit c = (c \<in> set ''0123456789'')"

definition digit_value :: "char \<Rightarrow> nat" where
  "digit_value c = of_char c - 48"

definition decimal_value :: "string \<Rightarrow> nat" where
  "decimal_value s = foldl (\<lambda>a c. 10 * a + digit_value c) 0 s"

definition int_value :: "string \<Rightarrow> int" where
  "int_value s =
     (case s of
        [] \<Rightarrow> 0
      | c # cs \<Rightarrow> if c = CHR ''-'' then - int (decimal_value cs) else int (decimal_value s))"

text \<open>\<^verbatim>\<open>sep.join(parts)\<close>.\<close>

fun join :: "string \<Rightarrow> string list \<Rightarrow> string" where
  "join sep [] = []"
| "join sep [x] = x"
| "join sep (x # y # ys) = x @ sep @ join sep (y # ys)"

section \<open>Retrieval and answering (rag\_service.py)\<close>

definition rag_get_embedding ::
  "llm_service \<Rightarrow> string \<Rightarrow> app_state \<Rightarrow> real list option \<times> app_state" where
  "rag_get_embedding svc text st = get_embedding svc text st"

text \<open>
  Python's truth value of an \<^verbatim>\<open>Optional[List[float]]\<close> and of an \<^verbatim>\<open>Optional[str]\<close>:
  \<^verbatim>\<open>None\<close> and the empty sequence are false.
\<close>

definition truthy :: "'a list option \<Rightarrow> bool" where
  "truthy v = (case v of None \<Rightarrow> False | Some xs \<Rightarrow> xs \<noteq> [])"

definition add_note :: "llm_service \<Rightarrow> db_note \<Rightarrow> app_state \<Rightarrow> app_state" where
  "add_note svc note st =
     (let text_content = n_title note @ '' '' @ n_content note;
          (embedding, st1) = rag_get_embedding svc text_content st
      in if truthy embedding
         then st1\<lparr>db := db_commit
                 (db_add \<lparr>ne_note_id = n_id note, ne_embedding = the embedding\<rparr> (db st1))\<rparr>
         else st1)"

definition update_note :: "llm_service \<Rightarrow> db_note \<Rightarrow> app_state \<Rightarrow> app_state" where
  "update_note svc note st =
     add_note svc note (st\<lparr>db := db_delete_embeddings (n_id note) (db st)\<rparr>)"

definition remove_note :: "int \<Rightarrow> app_state \<Rightarrow> app_state" where
  "remove_note note_id st = st\<lparr>db := db_commit (db_delete_embeddings note_id (db st))\<rparr>"

text \<open>One dictionary of the list that \<^verbatim>\<open>_get_relevant_notes\<close> returns.\<close>

record note_data =
  d_id :: int
  d_title :: string
  d_content :: string
  d_similarity :: float8
  d_created_at :: string
  d_updated_at :: string

text \<open>
  \<^verbatim>\<open>FROM notes n JOIN note_embeddings ne ON n.id = ne.note_id\<close>: every pair of a note
  and a vector row of that note. SQL leaves the order of a join open; the model runs
  over the vector rows in the order in which the store holds them.
\<close>

definition joined_rows :: "tables \<Rightarrow> (db_note \<times> note_embedding) list" where
  "joined_rows t =
     concat (map (\<lambda>ne. map (\<lambda>n. (n, ne)) (filter (\<lambda>n. n_id n = ne_note_id ne) (t_notes t)))
                 (t_note_embeddings t))"

text \<open>The sort key of the query, \<^verbatim>\<open>ne.embedding <=> q\<close>.\<close>

definition row_distance ::
  "vector_engine \<Rightarrow> real list \<Rightarrow> db_note \<times> note_embedding \<Rightarrow> float8" where
  "row_distance eng query_embedding row =
     vector_distance eng (ne_embedding (snd row)) query_embedding"

text \<open>
  The projection of a joined row: the columns of the note and
  \<^verbatim>\<open>1 - (ne.embedding <=> q) as similarity\<close>.
\<close>

definition note_data_of ::
  "vector_engine \<Rightarrow> real list \<Rightarrow> db_note \<times> note_embedding \<Rightarrow> note_data" where
  "note_data_of eng query_embedding row =
     \<lparr>d_id = n_id (fst row), d_title = n_title (fst row), d_content = n_content (fst row),
      d_similarity = float8_minus eng (Finite 1) (row_distance eng query_embedding row),
      d_created_at = n_created_at (fst row), d_updated_at = n_updated_at (fst row)\<rparr>"

text \<open>
  The query of \<^verbatim>\<open>_get_relevant_notes\<close>: the join ordered by distance to the query
  vector, cut at \<^verbatim>\<open>top_k\<close> rows. The statement names no second sort key, and SQL
  fixes no order among rows of equal distance; the model keeps them in the order of the
  join. The store rejects a negative \<^verbatim>\<open>LIMIT\<close>.
\<close>

definition similarity_search ::
  "vector_engine \<Rightarrow> tables \<Rightarrow> real list \<Rightarrow> int \<Rightarrow> string + note_data list" where
  "similarity_search eng t query_embedding top_k =
     (if top_k < 0 then Inl ''LIMIT must not be negative''
      else Inr (map (note_data_of eng query_embedding)
                 (take (nat top_k)
                   (sort_key (\<lambda>row. float8_key (row_distance eng query_embedding row))
                     (joined_rows t)))))"

definition get_relevant_notes ::
  "llm_service \<Rightarrow> string \<Rightarrow> int \<Rightarrow> app_state \<Rightarrow> (string + note_data list) \<times> app_state" where
  "get_relevant_notes svc query top_k st =
     (let (query_embedding, st1) = rag_get_embedding svc query st
      in if \<not> truthy query_embedding then (Inr [], st1)
         else (similarity_search (engine (db st1)) (pending (db st1)) (the query_embedding) top_k,
               st1))"

record ask_response =
  answer :: string
  sources :: "string list option"

definition no_notes_answer :: string where
  "no_notes_answer =
     ''I don'' @ [CHR 0x27] @ ''t have any notes to search through. Please add some notes first.''"

definition error_answer :: string where
  "error_answer = ''Sorry, I encountered an error while processing your question.''"

definition context_part :: "note_data \<Rightarrow> string" where
  "context_part note_data =
     ''Note '' @ [CHR 0x27] @ d_title note_data @ [CHR 0x27] @ '': '' @ d_content note_data"

definition source_line :: "note_data \<Rightarrow> string" where
  "source_line note_data =
     ''Note '' @ str_int (d_id note_data) @ '': '' @ d_title note_data @
     '' (similarity: '' @ fmt_2f (d_similarity note_data) @ '')''"

definition system_message :: chat_message where
  "system_message =
     \<lparr>m_role = ''system'',
      m_content = ''You are a helpful assistant that answers questions based on provided notes. Be concise and accurate.''\<rparr>"

text \<open>The role of a remembered message is read from its class.\<close>

definition context_message :: "base_message \<Rightarrow> chat_message" where
  "context_message msg =
     \<lparr>m_role = (case msg of HumanMessage c \<Rightarrow> ''user'' | AIMessage c \<Rightarrow> ''assistant''),
      m_content = content msg\<rparr>"

definition question_message :: "string \<Rightarrow> string \<Rightarrow> chat_message" where
  "question_message question ctx =
     \<lparr>m_role = ''user'',
      m_content =
        ''Based on the following notes, please answer the question: '' @ [CHR 0x27] @ question @
        [CHR 0x27] @ ''\<newline>\<newline>Notes:\<newline>'' @ ctx @
        ''\<newline>\<newline>Please provide a helpful answer based on the information in the notes. If the answer cannot be found in the notes, please say so clearly.''\<rparr>"

text \<open>The message list that \<^verbatim>\<open>ask_question\<close> assembles.\<close>

definition prompt_messages ::
  "string \<Rightarrow> note_data list \<Rightarrow> base_message list \<Rightarrow> chat_message list" where
  "prompt_messages question relevant_notes recent =
     [system_message] @ map context_message (slice_from (- 4) recent) @
     [question_message question (join ''\<newline>\<newline>'' (map context_part relevant_notes))]"

text \<open>
  \<^verbatim>\<open>ask_question\<close>; \<open>now_q\<close> and \<open>now_a\<close> are the clock readings of the two
  \<^verbatim>\<open>add_message\<close> calls. An exception of the query leaves the function (\<open>Inl\<close>).
\<close>

definition ask_question ::
  "llm_service \<Rightarrow> string \<Rightarrow> string \<Rightarrow> string \<Rightarrow> string \<Rightarrow> app_state
     \<Rightarrow> (string + ask_response) \<times> app_state" where
  "ask_question svc question user_id now_q now_a st =
     (case get_relevant_notes svc question 3 st of
        (Inl e, st1) \<Rightarrow> (Inl e, st1)
      | (Inr relevant_notes, st1) \<Rightarrow>
          if relevant_notes = []
          then (Inr \<lparr>answer = no_notes_answer, sources = Some []\<rparr>, st1)
          else
            let srcs = map source_line relevant_notes;
                (ums1, recent) = get_recent_context (memories st1) user_id;
                messages = prompt_messages question relevant_notes recent
            in (case generate_response svc messages 500 0.7 (st1\<lparr>memories := ums1\<rparr>) of
                 (Inl e, st2) \<Rightarrow>
                   (Inr \<lparr>answer = ''Sorry, I encountered an error while processing your question: '' @ e,
                         sources = Some []\<rparr>, st2)
               | (Inr ans, st2) \<Rightarrow>
                   if truthy ans
                   then (Inr \<lparr>answer = the ans, sources = Some srcs\<rparr>,
                         st2\<lparr>memories :=
                               add_message
                                 (add_message (memories st2) user_id question True ''default'' now_q)
                                 user_id (the ans) False ''default'' now_a\<rparr>)
                   else (Inr \<lparr>answer = error_answer, sources = Some []\<rparr>, st2)))"

text \<open>
  The options with which \<^verbatim>\<open>ask_question\<close> reaches \<^verbatim>\<open>ollama.chat\<close>: its own
  \<^verbatim>\<open>max_tokens=500, temperature=0.7\<close> and the default \<^verbatim>\<open>top_p\<close> of
  \<^verbatim>\<open>generate_response\<close>.
\<close>

definition rag_options :: chat_options where
  "rag_options = \<lparr>o_temperature = 0.7, o_top_p = 0.9, o_max_tokens = 500\<rparr>"

section \<open>Observations used in the statements\<close>

text \<open>The vector rows that the session sees, and those of one note.\<close>

definition stored_vectors :: "app_state \<Rightarrow> note_embedding list" where
  "stored_vectors st = t_note_embeddings (pending (db st))"

definition vectors_of :: "int \<Rightarrow> app_state \<Rightarrow> note_embedding list" where
  "vectors_of note_id st = filter (\<lambda>ne. ne_note_id ne = note_id) (stored_vectors st)"

text \<open>
  A result list ranked by descending similarity in which notes of equal similarity
  stand in ascending order of their ids.
\<close>

definition ranked_with_id_ties :: "note_data list \<Rightarrow> bool" where
  "ranked_with_id_ties rows =
     sorted_wrt (\<lambda>a b. py_gt (d_similarity a) (d_similarity b)
                     \<or> (d_similarity a = d_similarity b \<and> d_id a \<le> d_id b)) rows"

section \<open>Example inputs\<close>

definition ones_vector :: "real list" where
  "ones_vector = replicate 768 1"

text \<open>A vector at cosine similarity \<open>1 / 8\<close> to \<open>ones_vector\<close>.\<close>

definition eighth_vector :: "real list" where
  "eighth_vector = replicate 12 1 @ replicate 756 0"

text \<open>
  An engine that computes without rounding error: the cosine distance of the exact
  arithmetic, not-a-number when a vector has norm 0, and no rounding. On the vectors
  of the examples below every step is exact in binary floating point as well.
\<close>

definition dot :: "real list \<Rightarrow> real list \<Rightarrow> real" where
  "dot a b = sum_list (map2 (*) a b)"

definition exact_distance :: "real list \<Rightarrow> real list \<Rightarrow> float8" where
  "exact_distance a b =
     (if dot a a = 0 \<or> dot b b = 0 then NaN
      else Finite (1 - dot a b / (sqrt (dot a a) * sqrt (dot b b))))"

definition exact_engine :: vector_engine where
  "exact_engine = \<lparr>vector_distance = exact_distance, float8_round = (\<lambda>x. x)\<rparr>"

text \<open>A service whose two capabilities answer every call in the same way.\<close>

definition fixed_service :: "string + real list \<Rightarrow> string + string \<Rightarrow> llm_service" where
  "fixed_service embedding reply =
     \<lparr>embed_query = (\<lambda>text. embedding), ollama_chat = (\<lambda>messages options. reply)\<rparr>"

definition note_paris :: db_note where
  "note_paris =
     \<lparr>n_id = 1, n_title = ''Paris'', n_content = ''Paris is the capital of France'',
      n_created_at = ''2024-01-01T00:00:00'', n_updated_at = ''2024-01-01T00:00:00''\<rparr>"

definition note_rome :: db_note where
  "note_rome =
     \<lparr>n_id = 42, n_title = ''Rome'', n_content = ''Rome is the capital of Italy'',
      n_created_at = ''2024-01-03T00:00:00'', n_updated_at = ''2024-01-03T00:00:00''\<rparr>"

definition note_berlin :: db_note where
  "note_berlin =
     \<lparr>n_id = 2, n_title = ''Berlin'', n_content = ''Berlin is the capital of Germany'',
      n_created_at = ''2024-01-02T00:00:00'', n_updated_at = ''2024-01-02T00:00:00''\<rparr>"

text \<open>The state of a process that has just started on a database holding \<open>t\<close>.\<close>

definition new_state :: "tables \<Rightarrow> app_state" where
  "new_state t =
     \<lparr>db = \<lparr>engine = exact_engine, committed = t, pending = t\<rparr>,
      memories = Map.empty, calls = []\<rparr>"

definition no_tables :: tables where
  "no_tables = \<lparr>t_notes = [], t_note_embeddings = []\<rparr>"

definition paris_only :: tables where
  "paris_only = \<lparr>t_notes = [note_paris], t_note_embeddings = []\<rparr>"

definition paris_tables :: tables where
  "paris_tables =
     \<lparr>t_notes = [note_paris],
      t_note_embeddings = [\<lparr>ne_note_id = 1, ne_embedding = ones_vector\<rparr>]\<rparr>"

text \<open>
  Three notes: one whose vector has norm 0, one at similarity \<open>1 / 8\<close> to
  \<open>ones_vector\<close>, and one with that vector itself, their vector rows stored in this order.
\<close>

definition mixed_tables :: tables where
  "mixed_tables =
     \<lparr>t_notes = [note_paris, note_berlin, note_rome],
      t_note_embeddings = [\<lparr>ne_note_id = 2, ne_embedding = replicate 768 0\<rparr>,
                           \<lparr>ne_note_id = 42, ne_embedding = eighth_vector\<rparr>,
                           \<lparr>ne_note_id = 1, ne_embedding = ones_vector\<rparr>]\<rparr>"

text \<open>
  Two notes with the same vector; the vector row of note 2 lies before that of note 1,
  as after an update of note 1.
\<close>

definition tie_tables :: tables where
  "tie_tables =
     \<lparr>t_notes = [note_paris, note_berlin],
      t_note_embeddings = [\<lparr>ne_note_id = 2, ne_embedding = ones_vector\<rparr>,
                           \<lparr>ne_note_id = 1, ne_embedding = ones_vector\<rparr>]\<rparr>"

section \<open>Properties of the conversation memory\<close>

lemma slice_from_neg: "0 < n \<Longrightarrow> slice_from (- int n) xs = keep_last n xs"
  by (simp add: slice_from_def keep_last_def nat_diff_distrib' flip: of_nat_diff)

lemma slice_from_neg_numeral: "slice_from (- numeral w) xs = keep_last (numeral w) xs"
  using slice_from_neg [of "numeral w" xs] by simp

lemma slice_from_zero: "slice_from 0 xs = xs"
  by (simp add: slice_from_def)

lemma keep_last_append: "keep_last n (keep_last n a @ b) = keep_last n (a @ b)"
  unfolding keep_last_def by (cases "length a \<le> n") (auto simp: add.commute)

lemma length_keep_last: "length (keep_last n xs) = min n (length xs)"
  by (simp add: keep_last_def)

lemma full_log_empty: "full_log Map.empty u = []"
  by (simp add: full_log_def get_user_memory_def new_user_memory_def)

lemma recent_context_empty: "recent_context Map.empty u = []"
  by (simp add: recent_context_def get_recent_context_def get_user_memory_def new_user_memory_def)

lemma full_log_add_message:
  "full_log (add_message ums u msg b cid now) v =
     (if v = u
      then keep_last 100
             (full_log ums u @ [\<lparr>c_id = cid, c_timestamp = now, c_message = msg, c_is_user = b\<rparr>])
      else full_log ums v)"
  by (auto simp: full_log_def add_message_def get_user_memory_def Let_def slice_from_neg_numeral
                 keep_last_def
           split: option.splits)

lemma recent_context_add_message:
  "recent_context (add_message ums u msg b cid now) v =
     (if v = u
      then recent_context ums u @
             [HumanMessage (if b then msg else []), AIMessage (if \<not> b then msg else [])]
      else recent_context ums v)"
  by (auto simp: recent_context_def get_recent_context_def add_message_def get_user_memory_def
                 Let_def save_context_def new_user_memory_def
           split: option.splits)

lemma full_log_record_turn:
  "full_log (record_turn ums t) u =
     (if t_user t = u then keep_last 100 (full_log ums u @ [conversation_of t])
      else full_log ums u)"
  by (auto simp: record_turn_def full_log_add_message conversation_of_def)

lemma length_full_log_record_turn:
  "length (full_log ums u) \<le> 100 \<Longrightarrow> length (full_log (record_turn ums t) u) \<le> 100"
  by (auto simp: full_log_record_turn length_keep_last)

lemma full_log_record_all:
  "length (full_log ums u) \<le> 100 \<Longrightarrow>
   full_log (record_all ums ts) u =
     keep_last 100 (full_log ums u @ map conversation_of (filter (\<lambda>t. t_user t = u) ts))"
proof (induction ts arbitrary: ums)
  case Nil
  then show ?case by (simp add: record_all_def keep_last_def)
next
  case (Cons t ts)
  have step: "record_all ums (t # ts) = record_all (record_turn ums t) ts"
    by (simp add: record_all_def)
  note IH = Cons.IH [OF length_full_log_record_turn [OF Cons.prems]]
  show ?case
  proof (cases "t_user t = u")
    case True
    then show ?thesis
      unfolding step IH full_log_record_turn
      by (simp add: keep_last_append)
  next
    case False
    then show ?thesis
      unfolding step IH full_log_record_turn by simp
  qed
qed

lemma recent_context_record_turn:
  "recent_context (record_turn ums t) u =
     (if t_user t = u then recent_context ums u @ saved_pair t else recent_context ums u)"
  by (auto simp: record_turn_def recent_context_add_message saved_pair_def)

lemma recent_context_record_all:
  "recent_context (record_all ums ts) u =
     recent_context ums u @ concat (map saved_pair (filter (\<lambda>t. t_user t = u) ts))"
proof (induction ts arbitrary: ums)
  case Nil
  show ?case by (simp add: record_all_def)
next
  case (Cons t ts)
  have step: "record_all ums (t # ts) = record_all (record_turn ums t) ts"
    by (simp add: record_all_def)
  show ?case
    unfolding step Cons.IH
    by (simp add: recent_context_record_turn)
qed

lemma length_saved_pair: "length (saved_pair t) = 2"
  by (simp add: saved_pair_def)

lemma length_recent_context_record_all:
  "length (recent_context (record_all Map.empty ts) u) =
     2 * length (filter (\<lambda>t. t_user t = u) ts)"
  by (simp add: recent_context_record_all recent_context_empty length_concat comp_def
        length_saved_pair sum_list_triv)

text \<open>After \<^verbatim>\<open>clear_user_memory\<close> a user reads as one who never recorded anything.\<close>

lemma clear_user_memory_reads_empty:
  "full_log (clear_user_memory ums u) u = [] \<and> recent_context (clear_user_memory ums u) u = []"
  by (simp add: clear_user_memory_def full_log_def recent_context_def get_recent_context_def
        get_user_memory_def new_user_memory_def)

text \<open>
  The library's windowed view of the buffer holds at most \<open>k\<close> exchanges, that is
  \<open>2 * k\<close> messages; \<^verbatim>\<open>get_recent_context\<close> does not read it.
\<close>

lemma length_buffer: "length (buffer wm) \<le> 2 * window_k wm"
  by (cases "window_k wm") (simp_all add: buffer_def slice_from_def keep_last_def)

text \<open>
  Claim C6. Starting from a new manager, after any sequence of \<^verbatim>\<open>add_message\<close> calls
  (for any users, in any interleaving) the full log of a user is the list of that
  user's recorded turns without its oldest entries beyond the last 100: its length is
  the smaller of 100 and the number of turns recorded for the user, so eviction is by
  insertion order, oldest first. From any state whatever, the log of the user has at
  most 100 entries after a call.
\<close>

theorem full_log_retention_cap:
  "full_log (record_all Map.empty ts) u =
     drop (length (filter (\<lambda>t. t_user t = u) ts) - 100)
          (map conversation_of (filter (\<lambda>t. t_user t = u) ts))
   \<and> length (full_log (record_all Map.empty ts) u) =
       min 100 (length (filter (\<lambda>t. t_user t = u) ts))
   \<and> length (full_log (add_message ums u msg b cid now) u) \<le> 100"
proof -
  have "full_log (record_all Map.empty ts) u =
     drop (length (filter (\<lambda>t. t_user t = u) ts) - 100)
          (map conversation_of (filter (\<lambda>t. t_user t = u) ts))"
    using full_log_record_all [of Map.empty u ts]
    by (simp add: full_log_empty keep_last_def)
  moreover have "length (full_log (add_message ums u msg b cid now) u) \<le> 100"
    by (simp add: full_log_add_message length_keep_last)
  ultimately show ?thesis by auto
qed

text \<open>
  Claim C5. The recent context is not bounded by the window: \<^verbatim>\<open>get_recent_context\<close>
  returns the whole message list of the buffer memory, two messages for each recorded
  turn. After 15 turns of one user on a new manager it has 30 entries, not 10.
\<close>

theorem recent_context_exceeds_window:
  "length (recent_context
     (record_all Map.empty
        (replicate 15 \<lparr>t_user = ''u'', t_message = ''hello'', t_is_user = True,
                         t_conversation = ''default'', t_now = ''2024-01-01T00:00:00''\<rparr>))
     ''u'') = 30"
  by (simp add: length_recent_context_record_all)

lemma get_conversation_history_positive:
  "0 < limit \<Longrightarrow>
   snd (get_conversation_history ums u cid limit) =
     keep_last (nat limit) (filter (\<lambda>conv. c_id conv = cid) (full_log ums u))"
  using slice_from_neg [of "nat limit"]
  by (simp add: get_conversation_history_def full_log_def split_def Let_def)

lemma get_conversation_history_zero:
  "snd (get_conversation_history ums u cid 0) =
     filter (\<lambda>conv. c_id conv = cid) (full_log ums u)"
  by (simp add: get_conversation_history_def full_log_def split_def Let_def slice_from_zero)

lemma get_conversation_history_negative:
  "limit < 0 \<Longrightarrow>
   snd (get_conversation_history ums u cid limit) =
     drop (nat (- limit)) (filter (\<lambda>conv. c_id conv = cid) (full_log ums u))"
  by (simp add: get_conversation_history_def full_log_def split_def Let_def slice_from_def)

text \<open>
  Claim C9. With \<^verbatim>\<open>limit = 0\<close> the slice \<^verbatim>\<open>[-limit:]\<close> is \<^verbatim>\<open>[0:]\<close>, so
  \<^verbatim>\<open>get_conversation_history\<close> returns every turn of the conversation, not at most the
  last 0 of them: after one recorded turn, the history with limit 0 holds that turn.
\<close>

theorem history_limit_zero_returns_all:
  "snd (get_conversation_history
          (add_message Map.empty ''u'' ''hello'' True ''default'' ''2024-01-01T00:00:00'')
          ''u'' ''default'' 0) =
     [\<lparr>c_id = ''default'', c_timestamp = ''2024-01-01T00:00:00'',
       c_message = ''hello'', c_is_user = True\<rparr>]"
  by (simp add: get_conversation_history_zero full_log_add_message full_log_empty keep_last_def)

lemma last_two_in_last_four:
  "2 \<le> length xs \<Longrightarrow> set (keep_last 2 xs) \<subseteq> set (slice_from (- 4) xs)"
  by (simp add: slice_from_neg_numeral keep_last_def set_drop_subset_set_drop)

text \<open>
  Claim C10. One call of \<^verbatim>\<open>add_message\<close> appends two messages to what
  \<^verbatim>\<open>get_recent_context\<close> returns, a \<^verbatim>\<open>HumanMessage\<close> and an \<^verbatim>\<open>AIMessage\<close>, and the one
  whose side does not match \<^verbatim>\<open>is_user\<close> has empty content. That empty message lies in
  the last-4 slice and so reaches the prompt that \<^verbatim>\<open>ask_question\<close> assembles, as a
  message with empty content.
\<close>

theorem add_message_saves_padded_pair:
  "recent_context (add_message ums u msg is_user cid now) u =
     recent_context ums u @
       [HumanMessage (if is_user then msg else []), AIMessage (if is_user then [] else msg)]
   \<and> length (recent_context (add_message ums u msg is_user cid now) u) =
       length (recent_context ums u) + 2
   \<and> (if is_user then AIMessage [] else HumanMessage [])
       \<in> set (slice_from (- 4) (recent_context (add_message ums u msg is_user cid now) u))
   \<and> \<lparr>m_role = (if is_user then ''assistant'' else ''user''), m_content = []\<rparr>
       \<in> set (prompt_messages question relevant_notes
                (recent_context (add_message ums u msg is_user cid now) u))"
proof -
  let ?new = "recent_context (add_message ums u msg is_user cid now) u"
  let ?pad = "if is_user then AIMessage [] else HumanMessage []"
  have eq: "?new = recent_context ums u @
       [HumanMessage (if is_user then msg else []), AIMessage (if is_user then [] else msg)]"
    by (simp add: recent_context_add_message)
  have "keep_last 2 ?new =
          [HumanMessage (if is_user then msg else []), AIMessage (if is_user then [] else msg)]"
    unfolding eq by (simp add: keep_last_def)
  then have "?pad \<in> set (keep_last 2 ?new)" by simp
  moreover have "2 \<le> length ?new" unfolding eq by simp
  ultimately have mem: "?pad \<in> set (slice_from (- 4) ?new)"
    using last_two_in_last_four by blast
  have cm: "context_message ?pad =
              \<lparr>m_role = (if is_user then ''assistant'' else ''user''), m_content = []\<rparr>"
    by (simp add: context_message_def)
  have "context_message ?pad \<in> set (prompt_messages question relevant_notes ?new)"
    using imageI [OF mem, of context_message] by (simp add: prompt_messages_def)
  then have "\<lparr>m_role = (if is_user then ''assistant'' else ''user''), m_content = []\<rparr>
       \<in> set (prompt_messages question relevant_notes ?new)"
    unfolding cm .
  with eq mem show ?thesis by simp
qed

theorem add_message_saves_padded_pair_witness:
  "recent_context (add_message Map.empty ''u'' ''hello'' True ''default'' ''t0'') ''u'' =
     [HumanMessage ''hello'', AIMessage []]
   \<and> \<lparr>m_role = ''assistant'', m_content = []\<rparr>
       \<in> set (prompt_messages ''q'' []
                (recent_context (add_message Map.empty ''u'' ''hello'' True ''default'' ''t0'') ''u''))"
  using add_message_saves_padded_pair
    [of Map.empty "''u''" "''hello''" True "''default''" "''t0''" "''q''" "[]"]
  by (simp add: recent_context_empty recent_context_add_message)


section \<open>Properties of the text formatting\<close>

lemma round_half_even_nearest: "\<bar>of_int (round_half_even y) - y\<bar> \<le> 1 / 2"
  unfolding round_half_even_def Let_def by (auto simp: abs_le_iff)

lemma round_half_even_tie:
  "\<bar>of_int (round_half_even y) - y\<bar> = 1 / 2 \<Longrightarrow> even (round_half_even y)"
  unfolding round_half_even_def Let_def
  by (auto simp: abs_if split: if_splits) (linarith+)?

lemma round_half_even_nonneg: "0 \<le> y \<Longrightarrow> 0 \<le> round_half_even y"
  unfolding round_half_even_def Let_def by auto

lemma hundredths_nearest: "\<bar>real (hundredths x) - \<bar>x\<bar> * 100\<bar> \<le> 1 / 2"
  using round_half_even_nearest [of "\<bar>x\<bar> * 100"] round_half_even_nonneg [of "\<bar>x\<bar> * 100"]
  by (simp add: hundredths_def)

lemma hundredths_tie: "\<bar>real (hundredths x) - \<bar>x\<bar> * 100\<bar> = 1 / 2 \<Longrightarrow> even (hundredths x)"
  using round_half_even_tie [of "\<bar>x\<bar> * 100"] round_half_even_nonneg [of "\<bar>x\<bar> * 100"]
  by (simp add: hundredths_def even_nat_iff)

lemma digit_value_digit_char: "digit_value (digit_char d) = d mod 10"
proof -
  have "d mod 10 = 0 \<or> d mod 10 = 1 \<or> d mod 10 = 2 \<or> d mod 10 = 3 \<or> d mod 10 = 4
      \<or> d mod 10 = 5 \<or> d mod 10 = 6 \<or> d mod 10 = 7 \<or> d mod 10 = 8 \<or> d mod 10 = 9"
    by arith
  then show ?thesis
    unfolding digit_char_def digit_value_def by auto
qed

lemma is_digit_digit_char: "is_digit (digit_char d)"
  unfolding digit_char_def is_digit_def by (rule nth_mem) simp

lemma decimal_value_snoc: "decimal_value (s @ [c]) = 10 * decimal_value s + digit_value c"
  by (simp add: decimal_value_def)

lemma decimal_value_str_nat: "decimal_value (str_nat n) = n"
proof (induction n rule: str_nat.induct)
  case (1 n)
  show ?case
  proof (cases "n < 10")
    case True
    then show ?thesis
      by (subst str_nat.simps)
        (simp del: str_nat.simps add: decimal_value_def digit_value_digit_char)
  next
    case False
    then show ?thesis
      using 1 by (subst str_nat.simps)
        (simp del: str_nat.simps add: decimal_value_snoc digit_value_digit_char)
  qed
qed

lemma str_nat_digits: "list_all is_digit (str_nat n)"
proof (induction n rule: str_nat.induct)
  case (1 n)
  show ?case
    using 1 by (subst str_nat.simps) (simp del: str_nat.simps add: is_digit_digit_char)
qed

lemma str_nat_nonempty: "str_nat n \<noteq> []"
  by (subst str_nat.simps) (simp del: str_nat.simps)

lemma hd_str_nat: "0 < n \<Longrightarrow> hd (str_nat n) \<noteq> CHR ''0''"
proof (induction n rule: str_nat.induct)
  case (1 n)
  show ?case
  proof (cases "n < 10")
    case True
    with 1(2) have "n = 1 \<or> n = 2 \<or> n = 3 \<or> n = 4 \<or> n = 5 \<or> n = 6 \<or> n = 7 \<or> n = 8 \<or> n = 9"
      by arith
    then show ?thesis
      by (subst str_nat.simps) (auto simp del: str_nat.simps simp add: digit_char_def)
  next
    case False
    then have "0 < n div 10" by (simp add: div_greater_zero_iff)
    with 1(1) False have "hd (str_nat (n div 10)) \<noteq> CHR ''0''"
      by (simp del: str_nat.simps)
    then show ?thesis
      using False by (subst str_nat.simps) (simp del: str_nat.simps add: str_nat_nonempty)
  qed
qed

lemma minus_not_digit: "\<not> is_digit (CHR ''-'')"
  by (simp add: is_digit_def)

lemma hd_str_nat_not_minus: "hd (str_nat n) \<noteq> CHR ''-''"
  using str_nat_digits [of n] str_nat_nonempty [of n] minus_not_digit
  by (cases "str_nat n") auto

lemma int_value_str_int: "int_value (str_int i) = i"
proof (cases "i < 0")
  case True
  then show ?thesis
    by (simp del: str_nat.simps add: int_value_def str_int_def decimal_value_str_nat)
next
  case False
  obtain c cs where s: "str_nat (nat i) = c # cs"
    using str_nat_nonempty [of "nat i"] by (cases "str_nat (nat i)") auto
  have "c \<noteq> CHR ''-''"
    using hd_str_nat_not_minus [of "nat i"] unfolding s by simp
  then show ?thesis
    using False decimal_value_str_nat [of "nat i"]
    by (simp del: str_nat.simps add: int_value_def str_int_def s)
qed

lemma fmt_2f_Finite_1: "fmt_2f (Finite 1) = ''1.00''"
  by (simp add: fmt_2f_def hundredths_def round_half_even_def digit_char_def Let_def)

lemma fmt_2f_Finite_eighth: "fmt_2f (Finite (1 / 8)) = ''0.12''"
  by (simp add: fmt_2f_def hundredths_def round_half_even_def digit_char_def Let_def)

lemma fmt_2f_NaN: "fmt_2f NaN = ''nan''"
  by (simp add: fmt_2f_def)

lemma str_int_42: "str_int 42 = ''42''"
  by (simp add: str_int_def digit_char_def)

section \<open>Properties of retrieval and answering\<close>

lemma get_embedding_state:
  "snd (get_embedding svc q st) = st\<lparr>calls := calls st @ [Embed_call q]\<rparr>"
  by (simp add: get_embedding_def split: sum.splits)

lemma get_embedding_value:
  "fst (get_embedding svc q st) = (case embed_query svc q of Inl e \<Rightarrow> None | Inr v \<Rightarrow> Some v)"
  by (simp add: get_embedding_def split: sum.splits)

lemma get_relevant_notes_state:
  "snd (get_relevant_notes svc q k st) = st\<lparr>calls := calls st @ [Embed_call q]\<rparr>"
  by (simp add: get_relevant_notes_def rag_get_embedding_def split_def Let_def get_embedding_state)

lemma get_relevant_notes_value:
  "fst (get_relevant_notes svc q k st) =
     (case embed_query svc q of
        Inl e \<Rightarrow> Inr []
      | Inr v \<Rightarrow> if v = [] then Inr []
                else similarity_search (engine (db st)) (pending (db st)) v k)"
  by (simp add: get_relevant_notes_def rag_get_embedding_def split_def Let_def get_embedding_state
        get_embedding_value truthy_def split: sum.splits)

lemma joined_rows_no_embeddings: "t_note_embeddings t = [] \<Longrightarrow> joined_rows t = []"
  by (simp add: joined_rows_def)

lemma similarity_search_no_embeddings:
  "t_note_embeddings t = [] \<Longrightarrow> 0 \<le> k \<Longrightarrow> similarity_search eng t v k = Inr []"
  by (simp add: similarity_search_def joined_rows_no_embeddings)

lemma set_joined_rows:
  "set (joined_rows t) =
     {(n, ne). n \<in> set (t_notes t) \<and> ne \<in> set (t_note_embeddings t) \<and> n_id n = ne_note_id ne}"
  by (auto simp: joined_rows_def)

lemma float8_key_le:
  "float8_key a \<le> float8_key b \<longleftrightarrow>
     (case b of NaN \<Rightarrow> True | Finite y \<Rightarrow> (case a of NaN \<Rightarrow> False | Finite x \<Rightarrow> x \<le> y))"
  by (auto simp: float8_key_def split: float8.splits)

lemma similarity_not_higher:
  assumes "mono (float8_round eng)" and "float8_key a \<le> float8_key b"
  shows "\<not> py_gt (float8_minus eng (Finite 1) b) (float8_minus eng (Finite 1) a)"
proof (cases a)
  case (Finite x)
  show ?thesis
  proof (cases b)
    case (Finite y)
    with \<open>a = Finite x\<close> assms(2) have "x \<le> y" by (simp add: float8_key_le)
    then have "float8_round eng (1 - y) \<le> float8_round eng (1 - x)"
      using assms(1) by (simp add: monoD)
    then show ?thesis
      using Finite \<open>a = Finite x\<close> by (simp add: float8_minus_def py_gt_def)
  next
    case NaN
    then show ?thesis by (simp add: float8_minus_def py_gt_def)
  qed
next
  case NaN
  then show ?thesis by (simp add: float8_minus_def py_gt_def split: float8.splits)
qed

lemma ask_question_no_notes:
  assumes "fst (get_relevant_notes svc q 3 st) = Inr []"
  shows "ask_question svc q u now_q now_a st =
           (Inr \<lparr>answer = no_notes_answer, sources = Some []\<rparr>,
            st\<lparr>calls := calls st @ [Embed_call q]\<rparr>)"
proof -
  have "get_relevant_notes svc q 3 st = (Inr [], st\<lparr>calls := calls st @ [Embed_call q]\<rparr>)"
    using assms get_relevant_notes_state [of svc q 3 st] by (metis prod.collapse)
  then show ?thesis by (simp add: ask_question_def)
qed

lemma ollama_messages_copy:
  "map (\<lambda>msg. \<lparr>m_role = m_role msg, m_content = m_content msg\<rparr>) messages = messages"
  by (induction messages) simp_all

text \<open>\<^verbatim>\<open>generate_response\<close> returns normally whatever the chat capability does.\<close>

lemma generate_response_eq:
  "generate_response svc messages 500 0.7 st =
     (Inr (case ollama_chat svc messages rag_options of Inl e \<Rightarrow> None | Inr r \<Rightarrow> Some r),
      st\<lparr>calls := calls st @ [Chat_call messages rag_options]\<rparr>)"
  by (simp add: generate_response_def ollama_messages_copy rag_options_def Let_def split: sum.splits)

lemma get_recent_context_eq:
  "get_recent_context ums u = (fst (get_user_memory ums u), recent_context ums u)"
  by (simp add: recent_context_def get_recent_context_def split_def Let_def)



lemma add_message_lazy:
  "add_message (fst (get_user_memory ums u)) u msg b cid now = add_message ums u msg b cid now"
  by (auto simp: add_message_def get_user_memory_def Let_def split: option.splits)

text \<open>The run of \<^verbatim>\<open>ask_question\<close> once notes have been retrieved.\<close>

lemma ask_question_generating:
  assumes "fst (get_relevant_notes svc q 3 st) = Inr rows" and "rows \<noteq> []"
  shows "ask_question svc q u now_q now_a st =
     (let messages = prompt_messages q rows (recent_context (memories st) u);
          st2 = st\<lparr>calls := calls st @ [Embed_call q, Chat_call messages rag_options],
                   memories := fst (get_user_memory (memories st) u)\<rparr>
      in case ollama_chat svc messages rag_options of
           Inl e \<Rightarrow> (Inr \<lparr>answer = error_answer, sources = Some []\<rparr>, st2)
         | Inr a \<Rightarrow>
             if a = [] then (Inr \<lparr>answer = error_answer, sources = Some []\<rparr>, st2)
             else (Inr \<lparr>answer = a, sources = Some (map source_line rows)\<rparr>,
                   st2\<lparr>memories :=
                     add_message (add_message (memories st) u q True ''default'' now_q)
                       u a False ''default'' now_a\<rparr>))"
proof -
  have g: "get_relevant_notes svc q 3 st = (Inr rows, st\<lparr>calls := calls st @ [Embed_call q]\<rparr>)"
    using assms(1) get_relevant_notes_state [of svc q 3 st] by (metis prod.collapse)
  show ?thesis
    using assms(2)
    by (simp add: ask_question_def g get_recent_context_eq generate_response_eq Let_def truthy_def
          add_message_lazy split: sum.splits)
qed

lemma dot_replicate: "dot (replicate n a) (replicate n b) = of_nat n * (a * b)"
  by (induction n) (simp_all add: dot_def algebra_simps)

lemma dot_append:
  "length a = length c \<Longrightarrow> dot (a @ b) (c @ d) = dot a c + dot b d"
  by (simp add: dot_def)

lemma ones_vector_split: "ones_vector = replicate 12 1 @ replicate 756 1"
  by (simp add: ones_vector_def flip: replicate_add)

lemma dot_ones: "dot ones_vector ones_vector = 768"
  by (simp add: ones_vector_def dot_replicate)

lemma dot_eighth: "dot eighth_vector eighth_vector = 12"
  by (simp add: eighth_vector_def dot_append dot_replicate)

lemma dot_eighth_ones: "dot eighth_vector ones_vector = 12"
  by (simp add: eighth_vector_def ones_vector_split dot_append dot_replicate)

lemma sqrt_12_768: "sqrt 12 * sqrt 768 = 96"
proof -
  have "sqrt 12 * sqrt 768 = sqrt (96\<^sup>2)"
    by (simp flip: real_sqrt_mult)
  then show ?thesis by simp
qed

lemma exact_distance_ones: "exact_distance ones_vector ones_vector = Finite 0"
  by (simp add: exact_distance_def dot_ones)

lemma exact_distance_eighth: "exact_distance eighth_vector ones_vector = Finite (7 / 8)"
  by (simp add: exact_distance_def dot_ones dot_eighth dot_eighth_ones sqrt_12_768)

lemma exact_distance_zero: "exact_distance (replicate 768 0) ones_vector = NaN"
  by (simp add: exact_distance_def dot_replicate)


lemma mixed_search:
  "similarity_search exact_engine mixed_tables ones_vector 3 =
     Inr [\<lparr>d_id = 1, d_title = ''Paris'', d_content = ''Paris is the capital of France'',
           d_similarity = Finite 1, d_created_at = ''2024-01-01T00:00:00'',
           d_updated_at = ''2024-01-01T00:00:00''\<rparr>,
          \<lparr>d_id = 42, d_title = ''Rome'', d_content = ''Rome is the capital of Italy'',
           d_similarity = Finite (1 / 8), d_created_at = ''2024-01-03T00:00:00'',
           d_updated_at = ''2024-01-03T00:00:00''\<rparr>,
          \<lparr>d_id = 2, d_title = ''Berlin'', d_content = ''Berlin is the capital of Germany'',
           d_similarity = NaN, d_created_at = ''2024-01-02T00:00:00'',
           d_updated_at = ''2024-01-02T00:00:00''\<rparr>]"
  by (simp add: similarity_search_def mixed_tables_def joined_rows_def note_paris_def
        note_berlin_def note_rome_def note_data_of_def row_distance_def exact_engine_def
        exact_distance_ones exact_distance_eighth exact_distance_zero float8_minus_def
        float8_key_def)

lemma paris_source_line:
  "source_line \<lparr>d_id = 1, d_title = ''Paris'', d_content = ''Paris is the capital of France'',
           d_similarity = Finite 1, d_created_at = ''2024-01-01T00:00:00'',
           d_updated_at = ''2024-01-01T00:00:00''\<rparr> = ''Note 1: Paris (similarity: 1.00)''"
  by (simp add: source_line_def str_int_def fmt_2f_Finite_1 digit_char_def)


lemma mixed_retrieval:
  "fst (get_relevant_notes (fixed_service (Inr ones_vector) r) q 3 (new_state mixed_tables)) =
     Inr [\<lparr>d_id = 1, d_title = ''Paris'', d_content = ''Paris is the capital of France'',
           d_similarity = Finite 1, d_created_at = ''2024-01-01T00:00:00'',
           d_updated_at = ''2024-01-01T00:00:00''\<rparr>,
          \<lparr>d_id = 42, d_title = ''Rome'', d_content = ''Rome is the capital of Italy'',
           d_similarity = Finite (1 / 8), d_created_at = ''2024-01-03T00:00:00'',
           d_updated_at = ''2024-01-03T00:00:00''\<rparr>,
          \<lparr>d_id = 2, d_title = ''Berlin'', d_content = ''Berlin is the capital of Germany'',
           d_similarity = NaN, d_created_at = ''2024-01-02T00:00:00'',
           d_updated_at = ''2024-01-02T00:00:00''\<rparr>]"
  by (simp add: get_relevant_notes_value fixed_service_def new_state_def mixed_search)
     (simp add: ones_vector_def)

lemma mixed_source_lines:
  "map source_line
     [\<lparr>d_id = 1, d_title = ''Paris'', d_content = ''Paris is the capital of France'',
           d_similarity = Finite 1, d_created_at = ''2024-01-01T00:00:00'',
           d_updated_at = ''2024-01-01T00:00:00''\<rparr>,
          \<lparr>d_id = 42, d_title = ''Rome'', d_content = ''Rome is the capital of Italy'',
           d_similarity = Finite (1 / 8), d_created_at = ''2024-01-03T00:00:00'',
           d_updated_at = ''2024-01-03T00:00:00''\<rparr>,
          \<lparr>d_id = 2, d_title = ''Berlin'', d_content = ''Berlin is the capital of Germany'',
           d_similarity = NaN, d_created_at = ''2024-01-02T00:00:00'',
           d_updated_at = ''2024-01-02T00:00:00''\<rparr>] =
     [''Note 1: Paris (similarity: 1.00)'', ''Note 42: Rome (similarity: 0.12)'',
      ''Note 2: Berlin (similarity: nan)'']"
  by (simp add: source_line_def str_int_def fmt_2f_Finite_1 fmt_2f_Finite_eighth fmt_2f_NaN
        digit_char_def)

lemma ask_question_empty_store_eq:
  assumes "t_note_embeddings (pending (db st)) = []"
  shows "ask_question svc q u now_q now_a st =
           (Inr \<lparr>answer = no_notes_answer, sources = Some []\<rparr>,
            st\<lparr>calls := calls st @ [Embed_call q]\<rparr>)"
proof -
  have "fst (get_relevant_notes svc q 3 st) = Inr []"
    using assms
    by (simp add: get_relevant_notes_value similarity_search_no_embeddings split: sum.splits)
  then show ?thesis by (rule ask_question_no_notes)
qed

text \<open>
  Claim C1, as the code has it. When the session sees no vector rows, \<^verbatim>\<open>ask_question\<close>
  returns the fixed no-notes answer with an empty source list; the generation
  capability is not called and no memory is touched. The question is embedded first
  all the same: the one change of state is the embedding call in the trace.
\<close>

theorem ask_question_empty_store:
  assumes "t_note_embeddings (pending (db st)) = []"
  shows "ask_question svc q u now_q now_a st =
           (Inr \<lparr>answer = no_notes_answer, sources = Some []\<rparr>,
            st\<lparr>calls := calls st @ [Embed_call q]\<rparr>)"
  using assms by (rule ask_question_empty_store_eq)

theorem ask_question_empty_store_witness:
  "t_note_embeddings (pending (db (new_state no_tables))) = []
   \<and> ask_question (fixed_service (Inr ones_vector) (Inr ''Paris.''))
        ''What is the capital of France?'' ''u'' ''t1'' ''t2'' (new_state no_tables) =
       (Inr \<lparr>answer = no_notes_answer, sources = Some []\<rparr>,
        (new_state no_tables)\<lparr>calls := [Embed_call ''What is the capital of France?'']\<rparr>)"
proof -
  have h: "t_note_embeddings (pending (db (new_state no_tables))) = []"
    by (simp add: new_state_def no_tables_def)
  show ?thesis
    using h ask_question_empty_store [OF h, of "fixed_service (Inr ones_vector) (Inr ''Paris.'')"
      "''What is the capital of France?''" "''u''" "''t1''" "''t2''"]
    by (simp add: new_state_def)
qed

text \<open>
  The claim as stated fails: on an empty store and an empty trace, the trace after
  \<^verbatim>\<open>ask_question\<close> holds the embedding call for the question.
\<close>

theorem ask_question_empty_store_embeds:
  "t_note_embeddings (pending (db (new_state no_tables))) = []
   \<and> calls (new_state no_tables) = []
   \<and> calls (snd (ask_question (fixed_service (Inr ones_vector) (Inr ''Paris.''))
                    ''What is the capital of France?'' ''u'' ''t1'' ''t2'' (new_state no_tables))) =
       [Embed_call ''What is the capital of France?'']"
proof -
  have h: "t_note_embeddings (pending (db (new_state no_tables))) = []"
    by (simp add: new_state_def no_tables_def)
  show ?thesis
    using h by (simp add: ask_question_empty_store_eq [OF h]) (simp add: new_state_def)
qed





text \<open>
  Claim C4. When notes were retrieved and generation returns a non-empty text,
  \<^verbatim>\<open>ask_question\<close> returns that text with one source line for each retrieved note, in
  the order of retrieval, each of the form
  \<^verbatim>\<open>Note <id>: <title> (similarity: <score with 2 decimals>)\<close>; and the memory afterwards
  is the memory before with two \<^verbatim>\<open>add_message\<close> calls applied, the question as a user
  turn and then the answer as an assistant turn, so that the user's full log is the old
  log followed by these two turns (cut to its last 100 entries) and the recent context
  grows by the two saved pairs. The id is printed in decimal (reading the text back
  gives the id; digits only after an optional minus sign, no leading zero). The score is
  printed as sign, integer part, point and two digits, where the number of hundredths
  is the nearest to the exact value of the float, an exact tie going to the even one;
  not-a-number is printed as \<^verbatim>\<open>nan\<close>.
\<close>

theorem ask_question_success:
  assumes "fst (get_relevant_notes svc q 3 st) = Inr rows" and "rows \<noteq> []"
    and "ollama_chat svc (prompt_messages q rows (recent_context (memories st) u)) rag_options
           = Inr a"
    and "a \<noteq> []"
  shows "fst (ask_question svc q u now_q now_a st) =
           Inr \<lparr>answer = a, sources = Some (map source_line rows)\<rparr>
         \<and> memories (snd (ask_question svc q u now_q now_a st)) =
             add_message (add_message (memories st) u q True ''default'' now_q)
               u a False ''default'' now_a
         \<and> full_log (memories (snd (ask_question svc q u now_q now_a st))) u =
             keep_last 100 (full_log (memories st) u @
               [\<lparr>c_id = ''default'', c_timestamp = now_q, c_message = q, c_is_user = True\<rparr>,
                \<lparr>c_id = ''default'', c_timestamp = now_a, c_message = a, c_is_user = False\<rparr>])
         \<and> recent_context (memories (snd (ask_question svc q u now_q now_a st))) u =
             recent_context (memories st) u @
               [HumanMessage q, AIMessage [], HumanMessage [], AIMessage a]
         \<and> map source_line rows =
             map (\<lambda>r. ''Note '' @ str_int (d_id r) @ '': '' @ d_title r @
                       '' (similarity: '' @ fmt_2f (d_similarity r) @ '')'') rows
         \<and> str_int i = (if i < 0 then ''-'' else []) @ str_nat (nat \<bar>i\<bar>)
         \<and> int_value (str_int i) = i
         \<and> decimal_value (str_nat n) = n
         \<and> list_all is_digit (str_nat n)
         \<and> str_nat 0 = ''0''
         \<and> (n = 0 \<or> hd (str_nat n) \<noteq> CHR ''0'')
         \<and> map digit_char [0, 1, 2, 3, 4, 5, 6, 7, 8, 9] = ''0123456789''
         \<and> digit_value (digit_char d) = d mod 10
         \<and> fmt_2f NaN = ''nan''
         \<and> fmt_2f (Finite x) =
             (if x < 0 then ''-'' else []) @ str_nat (hundredths x div 100) @ ''.'' @
             [digit_char (hundredths x mod 100 div 10), digit_char (hundredths x mod 10)]
         \<and> \<bar>real (hundredths x) - \<bar>x\<bar> * 100\<bar> \<le> 1 / 2
         \<and> (\<bar>real (hundredths x) - \<bar>x\<bar> * 100\<bar> = 1 / 2 \<longrightarrow> even (hundredths x))"
proof -
  have 1: "ask_question svc q u now_q now_a st =
      (Inr \<lparr>answer = a, sources = Some (map source_line rows)\<rparr>,
       st\<lparr>calls := calls st @ [Embed_call q,
               Chat_call (prompt_messages q rows (recent_context (memories st) u)) rag_options],
          memories := add_message (add_message (memories st) u q True ''default'' now_q)
                       u a False ''default'' now_a\<rparr>)"
    using assms(3,4) by (simp add: ask_question_generating [OF assms(1,2)] Let_def)
  have 2: "full_log (add_message (add_message (memories st) u q True ''default'' now_q)
                       u a False ''default'' now_a) u =
           keep_last 100 (full_log (memories st) u @
               [\<lparr>c_id = ''default'', c_timestamp = now_q, c_message = q, c_is_user = True\<rparr>,
                \<lparr>c_id = ''default'', c_timestamp = now_a, c_message = a, c_is_user = False\<rparr>])"
    by (simp add: full_log_add_message keep_last_append)
  have 3: "map source_line rows =
             map (\<lambda>r. ''Note '' @ str_int (d_id r) @ '': '' @ d_title r @
                       '' (similarity: '' @ fmt_2f (d_similarity r) @ '')'') rows"
    by (simp add: source_line_def)
  have 4: "recent_context (add_message (add_message (memories st) u q True ''default'' now_q)
                       u a False ''default'' now_a) u =
           recent_context (memories st) u @
             [HumanMessage q, AIMessage [], HumanMessage [], AIMessage a]"
    by (simp add: recent_context_add_message)
  have state: "fst (ask_question svc q u now_q now_a st) =
           Inr \<lparr>answer = a, sources = Some (map source_line rows)\<rparr>
         \<and> memories (snd (ask_question svc q u now_q now_a st)) =
             add_message (add_message (memories st) u q True ''default'' now_q)
               u a False ''default'' now_a
         \<and> full_log (memories (snd (ask_question svc q u now_q now_a st))) u =
             keep_last 100 (full_log (memories st) u @
               [\<lparr>c_id = ''default'', c_timestamp = now_q, c_message = q, c_is_user = True\<rparr>,
                \<lparr>c_id = ''default'', c_timestamp = now_a, c_message = a, c_is_user = False\<rparr>])
         \<and> recent_context (memories (snd (ask_question svc q u now_q now_a st))) u =
             recent_context (memories st) u @
               [HumanMessage q, AIMessage [], HumanMessage [], AIMessage a]"
    using 2 4 by (simp add: 1)
  have 5: "str_int i = (if i < 0 then ''-'' else []) @ str_nat (nat \<bar>i\<bar>)"
    by (simp del: str_nat.simps add: str_int_def)
  have 6: "str_nat 0 = ''0''" by (simp add: digit_char_def)
  have 7: "n = 0 \<or> hd (str_nat n) \<noteq> CHR ''0''"
    using hd_str_nat [of n] by blast
  have 8: "map digit_char [0, 1, 2, 3, 4, 5, 6, 7, 8, 9] = ''0123456789''"
    by (simp add: digit_char_def)
  have 9: "fmt_2f (Finite x) =
             (if x < 0 then ''-'' else []) @ str_nat (hundredths x div 100) @ ''.'' @
             [digit_char (hundredths x mod 100 div 10), digit_char (hundredths x mod 10)]"
    by (simp del: str_nat.simps add: fmt_2f_def)
  have 10: "\<bar>real (hundredths x) - \<bar>x\<bar> * 100\<bar> = 1 / 2 \<longrightarrow> even (hundredths x)"
    using hundredths_tie [of x] by blast
  from state 3 5 int_value_str_int [of i] decimal_value_str_nat [of n] str_nat_digits [of n]
    6 7 8 digit_value_digit_char [of d] fmt_2f_NaN 9 hundredths_nearest [of x] 10
  show ?thesis by blast
qed

theorem ask_question_success_witness:
  "fst (ask_question (fixed_service (Inr ones_vector) (Inr ''Paris.''))
          ''What is the capital of France?'' ''u'' ''t1'' ''t2'' (new_state mixed_tables)) =
     Inr \<lparr>answer = ''Paris.'',
          sources = Some [''Note 1: Paris (similarity: 1.00)'',
                          ''Note 42: Rome (similarity: 0.12)'',
                          ''Note 2: Berlin (similarity: nan)'']\<rparr>
   \<and> full_log (memories (snd (ask_question (fixed_service (Inr ones_vector) (Inr ''Paris.''))
          ''What is the capital of France?'' ''u'' ''t1'' ''t2'' (new_state mixed_tables)))) ''u'' =
       [\<lparr>c_id = ''default'', c_timestamp = ''t1'',
          c_message = ''What is the capital of France?'', c_is_user = True\<rparr>,
        \<lparr>c_id = ''default'', c_timestamp = ''t2'', c_message = ''Paris.'', c_is_user = False\<rparr>]"
proof -
  let ?svc = "fixed_service (Inr ones_vector) (Inr ''Paris.'')"
  let ?rows = "[\<lparr>d_id = 1, d_title = ''Paris'', d_content = ''Paris is the capital of France'',
           d_similarity = Finite 1, d_created_at = ''2024-01-01T00:00:00'',
           d_updated_at = ''2024-01-01T00:00:00''\<rparr>,
          \<lparr>d_id = 42, d_title = ''Rome'', d_content = ''Rome is the capital of Italy'',
           d_similarity = Finite (1 / 8), d_created_at = ''2024-01-03T00:00:00'',
           d_updated_at = ''2024-01-03T00:00:00''\<rparr>,
          \<lparr>d_id = 2, d_title = ''Berlin'', d_content = ''Berlin is the capital of Germany'',
           d_similarity = NaN, d_created_at = ''2024-01-02T00:00:00'',
           d_updated_at = ''2024-01-02T00:00:00''\<rparr>]"
  have h1: "fst (get_relevant_notes ?svc ''What is the capital of France?'' 3
                   (new_state mixed_tables)) = Inr ?rows"
    by (rule mixed_retrieval)
  have h2: "?rows \<noteq> []" by simp
  have h3: "ollama_chat ?svc (prompt_messages ''What is the capital of France?'' ?rows
               (recent_context (memories (new_state mixed_tables)) ''u'')) rag_options
             = Inr ''Paris.''"
    by (simp add: fixed_service_def)
  have h4: "''Paris.'' \<noteq> []" by simp
  have m: "memories (new_state mixed_tables) = Map.empty" by (simp add: new_state_def)
  note T = ask_question_success [OF h1 h2 h3 h4, of "''t1''" "''t2''"]
  have a: "fst (ask_question ?svc ''What is the capital of France?'' ''u'' ''t1'' ''t2''
                  (new_state mixed_tables)) =
             Inr \<lparr>answer = ''Paris.'', sources = Some (map source_line ?rows)\<rparr>"
    using T by (rule conjunct1)
  have b: "full_log (memories (snd (ask_question ?svc ''What is the capital of France?'' ''u''
                  ''t1'' ''t2'' (new_state mixed_tables)))) ''u'' =
             keep_last 100 (full_log (memories (new_state mixed_tables)) ''u'' @
               [\<lparr>c_id = ''default'', c_timestamp = ''t1'',
                  c_message = ''What is the capital of France?'', c_is_user = True\<rparr>,
                \<lparr>c_id = ''default'', c_timestamp = ''t2'', c_message = ''Paris.'',
                  c_is_user = False\<rparr>])"
    using T [THEN conjunct2, THEN conjunct2, THEN conjunct1] .
  show ?thesis
    unfolding a b mixed_source_lines by (simp add: m full_log_empty keep_last_def)
qed

section \<open>Properties of the vector rows\<close>

lemma add_note_embedded:
  assumes "embed_query svc (n_title note @ '' '' @ n_content note) = Inr v" and "v \<noteq> []"
  shows "add_note svc note st =
     st\<lparr>calls := calls st @ [Embed_call (n_title note @ '' '' @ n_content note)],
        db := db_commit (db_add \<lparr>ne_note_id = n_id note, ne_embedding = v\<rparr> (db st))\<rparr>"
  using assms
  by (simp add: add_note_def rag_get_embedding_def get_embedding_def truthy_def)

lemma add_note_not_embedded:
  assumes "embed_query svc (n_title note @ '' '' @ n_content note) = Inl e
           \<or> embed_query svc (n_title note @ '' '' @ n_content note) = Inr []"
  shows "add_note svc note st =
     st\<lparr>calls := calls st @ [Embed_call (n_title note @ '' '' @ n_content note)]\<rparr>"
  using assms
  by (auto simp: add_note_def rag_get_embedding_def get_embedding_def truthy_def)

text \<open>
  When the embedding call fails, \<^verbatim>\<open>update_note\<close> has deleted the old rows in the open
  transaction and commits nothing.
\<close>

lemma update_note_not_embedded:
  assumes "embed_query svc (n_title note @ '' '' @ n_content note) = Inl e
           \<or> embed_query svc (n_title note @ '' '' @ n_content note) = Inr []"
  shows "stored_vectors (update_note svc note st) =
           filter (\<lambda>ne. ne_note_id ne \<noteq> n_id note) (stored_vectors st)
         \<and> committed (db (update_note svc note st)) = committed (db st)"
  by (simp add: update_note_def add_note_not_embedded [OF assms] stored_vectors_def
        db_delete_embeddings_def)

text \<open>
  On a session with nothing uncommitted, closing the session after such an update
  restores the rows: the old vectors of the note stay in the store.
\<close>

lemma update_note_not_embedded_close:
  assumes "embed_query svc (n_title note @ '' '' @ n_content note) = Inl e
           \<or> embed_query svc (n_title note @ '' '' @ n_content note) = Inr []"
    and "committed (db st) = pending (db st)"
  shows "db_close (db (update_note svc note st)) = db st"
  using assms(2)
  by (simp add: update_note_def add_note_not_embedded [OF assms(1)] db_close_def
        db_delete_embeddings_def)

text \<open>
  Claim C7, as the code has it. Provided that embedding the note's text returns a
  vector: \<^verbatim>\<open>add_note\<close> appends exactly one row for the note; \<^verbatim>\<open>update_note\<close> removes
  every row of the note's id and appends one row with the fresh vector, so that exactly
  that row remains for the id; \<^verbatim>\<open>remove_note\<close> removes every row of the id and leaves
  the others; and each of the three commits what it did.
\<close>

theorem vector_rows_follow_note_changes:
  assumes "embed_query svc (n_title note @ '' '' @ n_content note) = Inr v" and "v \<noteq> []"
  shows "stored_vectors (add_note svc note st) =
           stored_vectors st @ [\<lparr>ne_note_id = n_id note, ne_embedding = v\<rparr>]
       \<and> stored_vectors (update_note svc note st) =
           filter (\<lambda>ne. ne_note_id ne \<noteq> n_id note) (stored_vectors st) @
             [\<lparr>ne_note_id = n_id note, ne_embedding = v\<rparr>]
       \<and> vectors_of (n_id note) (update_note svc note st) =
           [\<lparr>ne_note_id = n_id note, ne_embedding = v\<rparr>]
       \<and> stored_vectors (remove_note note_id st) =
           filter (\<lambda>ne. ne_note_id ne \<noteq> note_id) (stored_vectors st)
       \<and> vectors_of note_id (remove_note note_id st) = []
       \<and> committed (db (add_note svc note st)) = pending (db (add_note svc note st))
       \<and> committed (db (update_note svc note st)) = pending (db (update_note svc note st))
       \<and> committed (db (remove_note note_id st)) = pending (db (remove_note note_id st))"
proof -
  have u: "update_note svc note st =
     st\<lparr>calls := calls st @ [Embed_call (n_title note @ '' '' @ n_content note)],
        db := db_commit (db_add \<lparr>ne_note_id = n_id note, ne_embedding = v\<rparr>
                (db_delete_embeddings (n_id note) (db st)))\<rparr>"
    by (simp add: update_note_def add_note_embedded [OF assms])
  show ?thesis
    unfolding u add_note_embedded [OF assms]
    by (simp add: stored_vectors_def vectors_of_def remove_note_def db_commit_def db_add_def
          db_delete_embeddings_def)
qed

theorem vector_rows_follow_note_changes_witness:
  "stored_vectors (add_note (fixed_service (Inr ones_vector) (Inr ''ok'')) note_paris
      (new_state paris_only)) = [\<lparr>ne_note_id = 1, ne_embedding = ones_vector\<rparr>]
   \<and> vectors_of 1 (update_note (fixed_service (Inr ones_vector) (Inr ''ok'')) note_paris
      (new_state paris_tables)) = [\<lparr>ne_note_id = 1, ne_embedding = ones_vector\<rparr>]
   \<and> vectors_of 1 (remove_note 1 (new_state paris_tables)) = []"
proof -
  let ?svc = "fixed_service (Inr ones_vector) (Inr ''ok'')"
  have h1: "embed_query ?svc (n_title note_paris @ '' '' @ n_content note_paris) = Inr ones_vector"
    by (simp add: fixed_service_def)
  have h2: "ones_vector \<noteq> []" by (simp add: ones_vector_def)
  have i: "n_id note_paris = 1" by (simp add: note_paris_def)
  have e: "stored_vectors (new_state paris_only) = []"
    by (simp add: stored_vectors_def new_state_def paris_only_def)
  show ?thesis
    using vector_rows_follow_note_changes [OF h1 h2, of "new_state paris_only" 1]
      vector_rows_follow_note_changes [OF h1 h2, of "new_state paris_tables" 1]
    by (simp add: i e)
qed

text \<open>
  The claim as stated fails when the embedding call fails: \<^verbatim>\<open>add_note\<close> then inserts
  nothing, and the note, which is in the notes table, has no vector row.
\<close>

theorem add_note_without_vector:
  "note_paris \<in> set (t_notes (pending (db
      (add_note (fixed_service (Inl ''connection refused'') (Inr ''ok'')) note_paris
         (new_state paris_only)))))
   \<and> length (vectors_of (n_id note_paris)
        (add_note (fixed_service (Inl ''connection refused'') (Inr ''ok'')) note_paris
           (new_state paris_only))) = 0"
proof -
  let ?svc = "fixed_service (Inl ''connection refused'') (Inr ''ok'')"
  have "embed_query ?svc (n_title note_paris @ '' '' @ n_content note_paris)
          = Inl ''connection refused''"
    by (simp add: fixed_service_def)
  then show ?thesis
    by (simp add: add_note_not_embedded vectors_of_def stored_vectors_def new_state_def
          paris_only_def)
qed

section \<open>Properties of the similarity search\<close>

text \<open>
  Claim C8, as the code has it. For every engine whose rounding is monotone, every
  query vector and every \<^verbatim>\<open>top_k\<close> that is not negative, the search returns the
  projections of joined rows of the store, each with the columns of its note and
  similarity \<open>1 - distance\<close> in \<^verbatim>\<open>float8\<close> arithmetic: at most \<^verbatim>\<open>top_k\<close> of them (all
  when there are fewer), in ascending order of distance, no row left out being closer
  than a returned one, so that no result has a higher similarity than a result before
  it. The order among results of equal distance is the one in which the store yields
  them.
\<close>

theorem similarity_search_ranked:
  assumes "0 \<le> top_k" and "mono (float8_round eng)"
  shows "(float8_key v \<le> float8_key w) =
           (case w of NaN \<Rightarrow> True
            | Finite y \<Rightarrow> (case v of NaN \<Rightarrow> False | Finite x \<Rightarrow> x \<le> y))
       \<and> py_gt (Finite x) (Finite y) = (y < x) \<and> \<not> py_gt NaN w \<and> \<not> py_gt v NaN
       \<and> float8_minus eng (Finite 1) (Finite x) = Finite (float8_round eng (1 - x))
       \<and> float8_minus eng (Finite 1) NaN = NaN
       \<and> (\<exists>picked rest.
           similarity_search eng t qv top_k = Inr (map (note_data_of eng qv) picked)
         \<and> mset (picked @ rest) = mset (joined_rows t)
         \<and> set (joined_rows t) =
             {(n, ne). n \<in> set (t_notes t) \<and> ne \<in> set (t_note_embeddings t)
                       \<and> n_id n = ne_note_id ne}
         \<and> length picked = min (nat top_k) (length (joined_rows t))
         \<and> int (length picked) \<le> top_k
         \<and> (\<forall>row \<in> set picked.
               note_data_of eng qv row =
                 \<lparr>d_id = n_id (fst row), d_title = n_title (fst row),
                  d_content = n_content (fst row),
                  d_similarity =
                    float8_minus eng (Finite 1) (vector_distance eng (ne_embedding (snd row)) qv),
                  d_created_at = n_created_at (fst row),
                  d_updated_at = n_updated_at (fst row)\<rparr>)
         \<and> sorted_wrt (\<lambda>a b. float8_key (vector_distance eng (ne_embedding (snd a)) qv)
                              \<le> float8_key (vector_distance eng (ne_embedding (snd b)) qv)) picked
         \<and> (\<forall>p \<in> set picked. \<forall>r \<in> set rest.
               float8_key (vector_distance eng (ne_embedding (snd p)) qv)
                 \<le> float8_key (vector_distance eng (ne_embedding (snd r)) qv))
         \<and> sorted_wrt (\<lambda>a b. \<not> py_gt (d_similarity b) (d_similarity a))
               (map (note_data_of eng qv) picked))"
proof -
  let ?d = "\<lambda>row. vector_distance eng (ne_embedding (snd row)) qv"
  let ?key = "\<lambda>row. float8_key (row_distance eng qv row)"
  let ?all = "sort_key ?key (joined_rows t)"
  let ?picked = "take (nat top_k) ?all"
  let ?rest = "drop (nat top_k) ?all"
  have key: "?key = (\<lambda>row. float8_key (?d row))"
    by (simp add: row_distance_def)
  have res: "similarity_search eng t qv top_k = Inr (map (note_data_of eng qv) ?picked)"
    using assms(1) by (simp add: similarity_search_def)
  have ms: "mset (?picked @ ?rest) = mset (joined_rows t)"
    by simp
  have len: "length ?picked = min (nat top_k) (length (joined_rows t))"
    by (simp add: min.commute)
  have len2: "int (length ?picked) \<le> top_k"
    using assms(1) by simp
  have fields: "\<forall>row \<in> set ?picked.
               note_data_of eng qv row =
                 \<lparr>d_id = n_id (fst row), d_title = n_title (fst row),
                  d_content = n_content (fst row),
                  d_similarity = float8_minus eng (Finite 1) (?d row),
                  d_created_at = n_created_at (fst row),
                  d_updated_at = n_updated_at (fst row)\<rparr>"
    by (simp add: note_data_of_def row_distance_def)
  have "sorted (map ?key ?all)" by (rule sorted_sort_key)
  then have srt: "sorted_wrt (\<lambda>a b. float8_key (?d a) \<le> float8_key (?d b)) ?all"
    by (simp add: sorted_map key)
  then have "sorted_wrt (\<lambda>a b. float8_key (?d a) \<le> float8_key (?d b)) (?picked @ ?rest)"
    by simp
  then have s1: "sorted_wrt (\<lambda>a b. float8_key (?d a) \<le> float8_key (?d b)) ?picked"
    and s2: "\<forall>p \<in> set ?picked. \<forall>r \<in> set ?rest. float8_key (?d p) \<le> float8_key (?d r)"
    unfolding sorted_wrt_append by blast+
  have "sorted_wrt (\<lambda>a b. \<not> py_gt (float8_minus eng (Finite 1) (?d b))
                                   (float8_minus eng (Finite 1) (?d a))) ?picked"
    using s1 by (rule sorted_wrt_mono_rel [rotated]) (simp add: similarity_not_higher [OF assms(2)])
  then have s3: "sorted_wrt (\<lambda>a b. \<not> py_gt (d_similarity b) (d_similarity a))
               (map (note_data_of eng qv) ?picked)"
    by (simp add: sorted_wrt_map note_data_of_def row_distance_def)
  have p1: "py_gt (Finite x) (Finite y) = (y < x)" by (simp add: py_gt_def)
  have p2: "\<not> py_gt NaN w" by (simp add: py_gt_def)
  have p3: "\<not> py_gt v NaN" by (simp add: py_gt_def split: float8.splits)
  have p4: "float8_minus eng (Finite 1) (Finite x) = Finite (float8_round eng (1 - x))"
    by (simp add: float8_minus_def)
  have p5: "float8_minus eng (Finite 1) NaN = NaN" by (simp add: float8_minus_def)
  show ?thesis
  proof (intro exI conjI)
    show "(float8_key v \<le> float8_key w) =
           (case w of NaN \<Rightarrow> True
            | Finite y \<Rightarrow> (case v of NaN \<Rightarrow> False | Finite x \<Rightarrow> x \<le> y))"
      by (rule float8_key_le)
    show "py_gt (Finite x) (Finite y) = (y < x)" by (rule p1)
    show "\<not> py_gt NaN w" by (rule p2)
    show "\<not> py_gt v NaN" by (rule p3)
    show "float8_minus eng (Finite 1) (Finite x) = Finite (float8_round eng (1 - x))"
      by (rule p4)
    show "float8_minus eng (Finite 1) NaN = NaN" by (rule p5)
    show "similarity_search eng t qv top_k = Inr (map (note_data_of eng qv) ?picked)"
      by (rule res)
    show "mset (?picked @ ?rest) = mset (joined_rows t)" by (rule ms)
    show "set (joined_rows t) =
             {(n, ne). n \<in> set (t_notes t) \<and> ne \<in> set (t_note_embeddings t)
                       \<and> n_id n = ne_note_id ne}"
      by (rule set_joined_rows)
    show "length ?picked = min (nat top_k) (length (joined_rows t))" by (rule len)
    show "int (length ?picked) \<le> top_k" by (rule len2)
    show "\<forall>row \<in> set ?picked.
               note_data_of eng qv row =
                 \<lparr>d_id = n_id (fst row), d_title = n_title (fst row),
                  d_content = n_content (fst row),
                  d_similarity = float8_minus eng (Finite 1) (?d row),
                  d_created_at = n_created_at (fst row),
                  d_updated_at = n_updated_at (fst row)\<rparr>"
      by (rule fields)
    show "sorted_wrt (\<lambda>a b. float8_key (?d a) \<le> float8_key (?d b)) ?picked" by (rule s1)
    show "\<forall>p \<in> set ?picked. \<forall>r \<in> set ?rest. float8_key (?d p) \<le> float8_key (?d r)"
      by (rule s2)
    show "sorted_wrt (\<lambda>a b. \<not> py_gt (d_similarity b) (d_similarity a))
               (map (note_data_of eng qv) ?picked)"
      by (rule s3)
  qed
qed

theorem similarity_search_ranked_witness:
  "(0::int) \<le> 3 \<and> mono (float8_round exact_engine)
   \<and> similarity_search exact_engine mixed_tables ones_vector 3 =
     Inr [\<lparr>d_id = 1, d_title = ''Paris'', d_content = ''Paris is the capital of France'',
           d_similarity = Finite 1, d_created_at = ''2024-01-01T00:00:00'',
           d_updated_at = ''2024-01-01T00:00:00''\<rparr>,
          \<lparr>d_id = 42, d_title = ''Rome'', d_content = ''Rome is the capital of Italy'',
           d_similarity = Finite (1 / 8), d_created_at = ''2024-01-03T00:00:00'',
           d_updated_at = ''2024-01-03T00:00:00''\<rparr>,
          \<lparr>d_id = 2, d_title = ''Berlin'', d_content = ''Berlin is the capital of Germany'',
           d_similarity = NaN, d_created_at = ''2024-01-02T00:00:00'',
           d_updated_at = ''2024-01-02T00:00:00''\<rparr>]
   \<and> (\<exists>picked rest.
           similarity_search exact_engine mixed_tables ones_vector 3 =
             Inr (map (note_data_of exact_engine ones_vector) picked)
         \<and> mset (picked @ rest) = mset (joined_rows mixed_tables)
         \<and> length picked = min (nat 3) (length (joined_rows mixed_tables))
         \<and> sorted_wrt (\<lambda>a b. \<not> py_gt (d_similarity b) (d_similarity a))
               (map (note_data_of exact_engine ones_vector) picked))"
proof -
  have h1: "(0::int) \<le> 3" by simp
  have h2: "mono (float8_round exact_engine)" by (simp add: exact_engine_def mono_def)
  from similarity_search_ranked [OF h1 h2, of _ _ _ _ mixed_tables ones_vector]
  obtain picked rest where
    "similarity_search exact_engine mixed_tables ones_vector 3 =
       Inr (map (note_data_of exact_engine ones_vector) picked)"
    "mset (picked @ rest) = mset (joined_rows mixed_tables)"
    "length picked = min (nat 3) (length (joined_rows mixed_tables))"
    "sorted_wrt (\<lambda>a b. \<not> py_gt (d_similarity b) (d_similarity a))
               (map (note_data_of exact_engine ones_vector) picked)"
    by blast
  then have "\<exists>picked rest.
           similarity_search exact_engine mixed_tables ones_vector 3 =
             Inr (map (note_data_of exact_engine ones_vector) picked)
         \<and> mset (picked @ rest) = mset (joined_rows mixed_tables)
         \<and> length picked = min (nat 3) (length (joined_rows mixed_tables))
         \<and> sorted_wrt (\<lambda>a b. \<not> py_gt (d_similarity b) (d_similarity a))
               (map (note_data_of exact_engine ones_vector) picked)"
    by blast
  with h1 h2 mixed_search show ?thesis by (intro conjI)
qed

text \<open>
  The claim as stated fails on ties: two notes with the same vector are returned with
  note 2 before note 1, both with similarity 1.
\<close>

theorem similarity_search_tie_order:
  "similarity_search exact_engine tie_tables ones_vector 3 =
     Inr [\<lparr>d_id = 2, d_title = ''Berlin'', d_content = ''Berlin is the capital of Germany'',
           d_similarity = Finite 1, d_created_at = ''2024-01-02T00:00:00'',
           d_updated_at = ''2024-01-02T00:00:00''\<rparr>,
          \<lparr>d_id = 1, d_title = ''Paris'', d_content = ''Paris is the capital of France'',
           d_similarity = Finite 1, d_created_at = ''2024-01-01T00:00:00'',
           d_updated_at = ''2024-01-01T00:00:00''\<rparr>]
   \<and> \<not> ranked_with_id_ties
       [\<lparr>d_id = 2, d_title = ''Berlin'', d_content = ''Berlin is the capital of Germany'',
           d_similarity = Finite 1, d_created_at = ''2024-01-02T00:00:00'',
           d_updated_at = ''2024-01-02T00:00:00''\<rparr>,
          \<lparr>d_id = 1, d_title = ''Paris'', d_content = ''Paris is the capital of France'',
           d_similarity = Finite 1, d_created_at = ''2024-01-01T00:00:00'',
           d_updated_at = ''2024-01-01T00:00:00''\<rparr>]"
  by (simp add: similarity_search_def tie_tables_def joined_rows_def note_paris_def
        note_berlin_def note_data_of_def row_distance_def exact_engine_def exact_distance_ones
        float8_minus_def float8_key_def ranked_with_id_ties_def py_gt_def)

end
